theory Spec2Isabelle
  imports Main "HOL-Library.Word"
begin

section \<open>GoBank: the account store, the token service, the authorization gate and the handlers\<close>

text \<open>
  A shallow embedding of the Go sources: the storage layer (\<open>PostgreStore\<close> and its
  queries), the HTTP handlers and the JWT helpers of the API server. Every Go function that
  returns \<open>(value, error)\<close> becomes a function into a sum (\<open>Inl\<close> the error), every
  function that only returns \<open>error\<close> returns an \<open>error option\<close> (\<open>None\<close> is
  \<open>nil\<close>), mutation of the database and of the response writer is explicit state passing,
  and a run-time panic is a value of its own.
\<close>

subsection \<open>JSON values\<close>

text \<open>
  \<open>json\<close> is a value as it is written in a JSON text: a number (the integer literals;
  the sources marshal no other number), a string, \<open>null\<close>, or any other value (a
  boolean, an array, an object), kept as its text. \<open>any\<close> is what \<open>encoding/json\<close>
  decodes such a value to inside a \<open>map[string]interface{}\<close>: every number becomes a
  \<open>float64\<close>, which is kept here as the integer it denotes.
\<close>

datatype json = JNumber int | JString string | JNull | JOther string

datatype any = Float64 int | Str string | Nil | Other string

type_synonym object = "(string \<times> json) list"

text \<open>Number of binary digits of a natural number.\<close>

fun bitLen :: "nat \<Rightarrow> nat" where
  "bitLen n = (if n = 0 then 0 else Suc (bitLen (n div 2)))"

declare bitLen.simps [simp del]

text \<open>
  The \<open>float64\<close> nearest to an integer: integers of at most 53 binary digits are kept,
  longer ones are rounded to 53 significant digits, ties to the even neighbour.
\<close>

definition float64 :: "int \<Rightarrow> int" where
  "float64 n =
     (let a = nat \<bar>n\<bar>; k = bitLen a in
      if k \<le> 53 then n
      else
        let e = k - 53; q = a div 2 ^ e; r = a mod 2 ^ e; h = 2 ^ (e - 1);
            q' = (if h < r \<or> (r = h \<and> odd q) then q + 1 else q)
        in sgn n * int (q' * 2 ^ e))"

text \<open>
  The conversion \<open>int64(f)\<close> of an integer-valued \<open>float64\<close>. Outside the range of
  \<open>int64\<close> Go leaves the result to the implementation; the value taken here is the one
  of amd64.
\<close>

definition toInt64 :: "int \<Rightarrow> int" where
  "toInt64 f =
     (if - 9223372036854775808 \<le> f \<and> f \<le> 9223372036854775807 then f
      else - 9223372036854775808)"

fun decodeValue :: "json \<Rightarrow> any" where
  "decodeValue (JNumber n) = Float64 (float64 n)"
| "decodeValue (JString s) = Str s"
| "decodeValue JNull = Nil"
| "decodeValue (JOther v) = Other v"

text \<open>
  \<open>json.Unmarshal\<close> of an object into a map: when a key occurs twice, the later
  occurrence wins.
\<close>

definition Unmarshal :: "object \<Rightarrow> (string \<rightharpoonup> any)" where
  "Unmarshal obj = map_of (rev (map (\<lambda>(k, v). (k, decodeValue v)) obj))"

subsection \<open>Errors\<close>

text \<open>
  The errors the sources build with \<open>fmt.Errorf\<close>, the errors of the database driver
  and of the JSON decoder (their text is a parameter), and the error kinds of the JWT
  library.
\<close>

datatype error =
    MethodNotAllowed string
  | NotAuthenticated
  | InvalidID string
  | AccountNotFound int
  | DriverError string
  | DecodeError string
  | UnexpectedSigningMethod "any option"
  | ErrInvalidKeyType
  | ErrTokenMalformed
  | ErrTokenUnverifiable
  | ErrTokenSignatureInvalid
  | ErrTokenInvalidClaims

text \<open>Decimal rendering of an integer, as the verb \<open>%d\<close> prints it.\<close>

function natDigits :: "nat \<Rightarrow> string" where
  "natDigits n =
     (if n < 10 then [char_of (48 + n)]
      else natDigits (n div 10) @ [char_of (48 + n mod 10)])"
  by pat_completeness auto
termination
  by (relation "measure (\<lambda>n. n)") auto

declare natDigits.simps [simp del]

definition Itoa :: "int \<Rightarrow> string" where
  "Itoa i = (if i < 0 then CHR ''-'' # natDigits (nat (- i)) else natDigits (nat i))"

text \<open>\<open>err.Error()\<close>: the message that ends up in the \<open>error\<close> field of a response.\<close>

fun Error :: "error \<Rightarrow> string" where
  "Error (MethodNotAllowed m) = ''method '' @ m @ '' not allowed''"
| "Error NotAuthenticated = ''not authenticated''"
| "Error (InvalidID s) = ''invalid id '' @ s"
| "Error (AccountNotFound n) = ''account '' @ Itoa n @ '' not found''"
| "Error (DriverError e) = e"
| "Error (DecodeError e) = e"
| "Error (UnexpectedSigningMethod alg) =
     ''unexpected signing method: '' @
       (case alg of
          Some (Float64 f) \<Rightarrow> Itoa f
        | Some (Str a) \<Rightarrow> a
        | Some (Other v) \<Rightarrow> v
        | _ \<Rightarrow> ''<nil>'')"
| "Error ErrInvalidKeyType = ''key is of invalid type''"
| "Error ErrTokenMalformed = ''token is malformed''"
| "Error ErrTokenUnverifiable = ''token is unverifiable''"
| "Error ErrTokenSignatureInvalid = ''token signature is invalid''"
| "Error ErrTokenInvalidClaims = ''token has invalid claims''"

subsection \<open>Accounts and the accounts table\<close>

text \<open>
  The \<open>Account\<close> struct, by the seven fields \<open>scanIntoAccounts\<close> fills from a row, in
  the column order of \<open>createAccountTable\<close>. The sources do no arithmetic on the integer
  fields, which are kept as integers; \<open>CreatedAt\<close> is a time in seconds.
\<close>

record Account =
  ID :: int
  FirstName :: string
  LastName :: string
  Number :: int
  EncryptedPassword :: string
  Balance :: int
  CreatedAt :: int

text \<open>
  A row of the table \<open>accounts\<close>, by the columns of \<open>createAccountTable\<close>. The columns
  \<open>id\<close>, \<open>number\<close> and \<open>balance\<close> are declared \<open>SERIAL\<close>: they hold 32-bit
  integers. \<open>int4\<close> is the range of such a column.
\<close>

record Row =
  col_id :: "32 word"
  col_first_name :: string
  col_last_name :: string
  col_number :: "32 word"
  col_encrypted_password :: string
  col_balance :: "32 word"
  col_created_at :: int

definition int4 :: "int \<Rightarrow> bool" where
  "int4 n = (- 2147483648 \<le> n \<and> n \<le> 2147483647)"

text \<open>
  \<open>scanIntoAccounts\<close>: \<open>rows.Scan\<close> copies the seven columns of the current row into
  the fields of a new \<open>Account\<close>; every column converts to the type of its field, so the
  error is \<open>nil\<close>.
\<close>

definition scanIntoAccounts :: "Row \<Rightarrow> error + Account" where
  "scanIntoAccounts rows =
     Inr \<lparr>ID = sint (col_id rows), FirstName = col_first_name rows,
          LastName = col_last_name rows, Number = sint (col_number rows),
          EncryptedPassword = col_encrypted_password rows, Balance = sint (col_balance rows),
          CreatedAt = col_created_at rows\<rparr>"

text \<open>
  \<open>PostgreStore\<close>: the state behind \<open>s.db\<close>. \<open>accounts\<close> is the table, in the order
  in which a \<open>SELECT\<close> returns its rows; \<open>dbErr\<close> is the state of the connection:
  when it is \<open>Some e\<close>, \<open>s.db.Query\<close> returns the error \<open>e\<close> and executes nothing.
  The conditions \<open>id = $1\<close> and \<open>number = $1\<close> compare the integer in the column with
  the integer passed.
\<close>

record PostgreStore =
  accounts :: "Row list"
  dbErr :: "string option"

text \<open>\<open>DELETE FROM accounts WHERE id = $1\<close>; the function returns the error of the query.\<close>

definition DeleteAccount :: "PostgreStore \<Rightarrow> int \<Rightarrow> error option \<times> PostgreStore" where
  "DeleteAccount s id' =
     (case dbErr s of
        Some e \<Rightarrow> (Some (DriverError e), s)
      | None \<Rightarrow> (None, s\<lparr>accounts := filter (\<lambda>r. sint (col_id r) \<noteq> id') (accounts s)\<rparr>))"

text \<open>
  \<open>SELECT * FROM accounts WHERE number = $1\<close>: the first row of the result is scanned and
  returned; when the result has no row, the account is reported as not found.
\<close>

definition GetAccountByNumber :: "PostgreStore \<Rightarrow> int \<Rightarrow> error + Account" where
  "GetAccountByNumber s number =
     (case dbErr s of
        Some e \<Rightarrow> Inl (DriverError e)
      | None \<Rightarrow>
          (case filter (\<lambda>r. sint (col_number r) = number) (accounts s) of
             rows # _ \<Rightarrow> scanIntoAccounts rows
           | [] \<Rightarrow> Inl (AccountNotFound number)))"

text \<open>\<open>SELECT * FROM accounts WHERE id = $1\<close>, read the same way.\<close>

definition GetAccountByID :: "PostgreStore \<Rightarrow> int \<Rightarrow> error + Account" where
  "GetAccountByID s id' =
     (case dbErr s of
        Some e \<Rightarrow> Inl (DriverError e)
      | None \<Rightarrow>
          (case filter (\<lambda>r. sint (col_id r) = id') (accounts s) of
             rows # _ \<Rightarrow> scanIntoAccounts rows
           | [] \<Rightarrow> Inl (AccountNotFound id')))"

text \<open>
  \<open>SELECT * FROM accounts\<close>: every row is scanned in order and appended; the first scan
  error ends the loop.
\<close>

fun scanAll :: "Row list \<Rightarrow> Account list \<Rightarrow> error + Account list" where
  "scanAll [] accs = Inr accs"
| "scanAll (rows # rest) accs =
     (case scanIntoAccounts rows of
        Inl err \<Rightarrow> Inl err
      | Inr account \<Rightarrow> scanAll rest (accs @ [account]))"

definition GetAccounts :: "PostgreStore \<Rightarrow> error + Account list" where
  "GetAccounts s =
     (case dbErr s of
        Some e \<Rightarrow> Inl (DriverError e)
      | None \<Rightarrow> scanAll (accounts s) [])"

text \<open>\<open>UpdateAccount\<close> is a stub of the source: it returns \<open>nil\<close> and touches nothing.\<close>

definition UpdateAccount :: "PostgreStore \<Rightarrow> Account \<Rightarrow> error option \<times> PostgreStore" where
  "UpdateAccount s a = (None, s)"

subsection \<open>The JWT library, as the sources use it\<close>

text \<open>
  The sources import release 5 of \<open>github.com/golang-jwt/jwt\<close> and call
  \<open>jwt.NewWithClaims\<close>, \<open>SignedString\<close> and \<open>jwt.Parse\<close>. This section models those
  three, with the default parser and validator, since the sources pass no option.

  First the signing methods the library registers, by the Go type that implements them,
  and the lookup of a method by the \<open>alg\<close> header.
\<close>

datatype Hash = SHA256 | SHA384 | SHA512

datatype SigningMethod =
    SigningMethodHMAC Hash
  | SigningMethodRSA Hash
  | SigningMethodRSAPSS Hash
  | SigningMethodECDSA Hash
  | SigningMethodEd25519
  | signingMethodNone

definition GetSigningMethod :: "string \<Rightarrow> SigningMethod option" where
  "GetSigningMethod alg =
     (if alg = ''HS256'' then Some (SigningMethodHMAC SHA256)
      else if alg = ''HS384'' then Some (SigningMethodHMAC SHA384)
      else if alg = ''HS512'' then Some (SigningMethodHMAC SHA512)
      else if alg = ''RS256'' then Some (SigningMethodRSA SHA256)
      else if alg = ''RS384'' then Some (SigningMethodRSA SHA384)
      else if alg = ''RS512'' then Some (SigningMethodRSA SHA512)
      else if alg = ''PS256'' then Some (SigningMethodRSAPSS SHA256)
      else if alg = ''PS384'' then Some (SigningMethodRSAPSS SHA384)
      else if alg = ''PS512'' then Some (SigningMethodRSAPSS SHA512)
      else if alg = ''ES256'' then Some (SigningMethodECDSA SHA256)
      else if alg = ''ES384'' then Some (SigningMethodECDSA SHA384)
      else if alg = ''ES512'' then Some (SigningMethodECDSA SHA512)
      else if alg = ''EdDSA'' then Some SigningMethodEd25519
      else if alg = ''none'' then Some signingMethodNone
      else None)"

fun Alg :: "SigningMethod \<Rightarrow> string" where
  "Alg (SigningMethodHMAC SHA256) = ''HS256''"
| "Alg (SigningMethodHMAC SHA384) = ''HS384''"
| "Alg (SigningMethodHMAC SHA512) = ''HS512''"
| "Alg (SigningMethodRSA SHA256) = ''RS256''"
| "Alg (SigningMethodRSA SHA384) = ''RS384''"
| "Alg (SigningMethodRSA SHA512) = ''RS512''"
| "Alg (SigningMethodRSAPSS SHA256) = ''PS256''"
| "Alg (SigningMethodRSAPSS SHA384) = ''PS384''"
| "Alg (SigningMethodRSAPSS SHA512) = ''PS512''"
| "Alg (SigningMethodECDSA SHA256) = ''ES256''"
| "Alg (SigningMethodECDSA SHA384) = ''ES384''"
| "Alg (SigningMethodECDSA SHA512) = ''ES512''"
| "Alg SigningMethodEd25519 = ''EdDSA''"
| "Alg signingMethodNone = ''none''"

text \<open>
  A token string is kept in parsed form. \<open>NotThreeSegments\<close> is any string that does not
  split at its dots into exactly three parts (the empty string is one). Otherwise the
  three parts are given by what they decode to: \<open>Undecodable\<close> is a part that is not
  base64url or, for the first two, not a JSON object. The bytes of a signature are
  symbolic: \<open>HMACSum h key header claims\<close> is the MAC, with hash \<open>h\<close> and key \<open>key\<close>,
  of the first two parts; \<open>OtherBytes\<close> are bytes that are the MAC of nothing. Two
  signatures are equal only when they are the same term: MACs do not collide and cannot
  be produced without the key.
\<close>

datatype 'a segment = Undecodable | Seg 'a

datatype sigBytes = HMACSum Hash string object object | OtherBytes nat

datatype tokenString =
    NotThreeSegments
  | Compact "object segment" "object segment" "sigBytes segment"

text \<open>\<open>jwt.Token\<close>. \<open>Method\<close> is \<open>None\<close> while the method has not been looked up.\<close>

record Token =
  Method :: "SigningMethod option"
  Header :: "string \<rightharpoonup> any"
  Claims :: "string \<rightharpoonup> any"
  Signature :: "sigBytes option"
  Valid :: bool

definition newToken :: Token where
  "newToken = \<lparr>Method = None, Header = Map.empty, Claims = Map.empty,
     Signature = None, Valid = False\<rparr>"

text \<open>
  \<open>Sign\<close> and \<open>Verify\<close> with a key of type \<open>[]byte\<close>, the only type of key the
  sources pass: the HMAC methods compute the MAC; every other method rejects the key.
\<close>

fun Sign :: "SigningMethod \<Rightarrow> object \<Rightarrow> object \<Rightarrow> string \<Rightarrow> error + sigBytes" where
  "Sign (SigningMethodHMAC h) header claims key = Inr (HMACSum h key header claims)"
| "Sign _ header claims key = Inl ErrInvalidKeyType"

fun Verify :: "SigningMethod \<Rightarrow> object \<Rightarrow> object \<Rightarrow> sigBytes \<Rightarrow> string \<Rightarrow> bool" where
  "Verify (SigningMethodHMAC h) header claims sig key = (sig = HMACSum h key header claims)"
| "Verify _ header claims sig key = False"

text \<open>
  \<open>jwt.NewWithClaims(method, claims)\<close> followed by \<open>SignedString(key)\<close>: the header
  holds \<open>alg\<close> and \<open>typ\<close>, and the signature covers header and claims.
\<close>

definition SignedString :: "SigningMethod \<Rightarrow> object \<Rightarrow> string \<Rightarrow> error + tokenString" where
  "SignedString method claims key =
     (let header = [(''alg'', JString (Alg method)), (''typ'', JString ''JWT'')] in
      case Sign method header claims key of
        Inl e \<Rightarrow> Inl e
      | Inr sig \<Rightarrow> Inr (Compact (Seg header) (Seg claims) (Seg sig)))"

text \<open>
  The time claims of \<open>MapClaims\<close>, as the default validator checks them at the time
  \<open>now\<close> (in seconds): \<open>exp\<close> and \<open>nbf\<close> are optional, a value that is not a number
  is an error, the number 0 counts as absent, and a token is expired unless \<open>now\<close> is
  before \<open>exp\<close>. No other claim is looked at.
\<close>

definition verifyExpiresAt :: "(string \<rightharpoonup> any) \<Rightarrow> int \<Rightarrow> bool" where
  "verifyExpiresAt claims now =
     (case claims ''exp'' of
        None \<Rightarrow> True
      | Some (Float64 exp) \<Rightarrow> (if exp = 0 then True else now < exp)
      | Some _ \<Rightarrow> False)"

definition verifyNotBefore :: "(string \<rightharpoonup> any) \<Rightarrow> int \<Rightarrow> bool" where
  "verifyNotBefore claims now =
     (case claims ''nbf'' of
        None \<Rightarrow> True
      | Some (Float64 nbf) \<Rightarrow> (if nbf = 0 then True else nbf \<le> now)
      | Some _ \<Rightarrow> False)"

definition Validate :: "(string \<rightharpoonup> any) \<Rightarrow> int \<Rightarrow> bool" where
  "Validate claims now = (verifyExpiresAt claims now \<and> verifyNotBefore claims now)"

text \<open>
  \<open>ParseUnverified\<close> on the first two parts: decode the header, decode the claims, look
  the signing method up. The token is returned together with the error.
\<close>

definition ParseUnverified :: "object segment \<Rightarrow> object segment \<Rightarrow> Token \<times> error option" where
  "ParseUnverified p0 p1 =
     (case p0 of
        Undecodable \<Rightarrow> (newToken, Some ErrTokenMalformed)
      | Seg header \<Rightarrow>
          (let token = newToken\<lparr>Header := Unmarshal header\<rparr> in
           case p1 of
             Undecodable \<Rightarrow> (token, Some ErrTokenMalformed)
           | Seg claims \<Rightarrow>
               (let token = token\<lparr>Claims := Unmarshal claims\<rparr> in
                case Header token ''alg'' of
                  Some (Str alg) \<Rightarrow>
                    (case GetSigningMethod alg of
                       None \<Rightarrow> (token, Some ErrTokenUnverifiable)
                     | Some m \<Rightarrow> (token\<lparr>Method := Some m\<rparr>, None))
                | _ \<Rightarrow> (token, Some ErrTokenUnverifiable))))"

text \<open>
  \<open>jwt.Parse(tokenString, keyFunc)\<close>, returning the pair \<open>(token, err)\<close> of the Go
  function. A string without three parts gives the \<open>nil\<close> token. Otherwise: parse
  unverified, decode the signature, ask \<open>keyFunc\<close> for the key, verify the signature,
  validate the claims, and only then set \<open>Valid\<close>.
\<close>

fun Parse :: "tokenString \<Rightarrow> (Token \<Rightarrow> error + string) \<Rightarrow> int \<Rightarrow> Token option \<times> error option" where
  "Parse NotThreeSegments keyFunc now = (None, Some ErrTokenMalformed)"
| "Parse (Compact p0 p1 p2) keyFunc now =
     (case ParseUnverified p0 p1 of
        (token, Some e) \<Rightarrow> (Some token, Some e)
      | (token, None) \<Rightarrow>
          (case (p0, p1, p2, Method token) of
             (Seg header, Seg claims, Seg sig, Some method) \<Rightarrow>
               (let token = token\<lparr>Signature := Some sig\<rparr> in
                case keyFunc token of
                  Inl e \<Rightarrow> (Some token, Some ErrTokenUnverifiable)
                | Inr key \<Rightarrow>
                    if \<not> Verify method header claims sig key
                    then (Some token, Some ErrTokenSignatureInvalid)
                    else if \<not> Validate (Claims token) now
                    then (Some token, Some ErrTokenInvalidClaims)
                    else (Some (token\<lparr>Valid := True\<rparr>), None))
           | _ \<Rightarrow> (Some token, Some ErrTokenMalformed)))"

subsection \<open>Requests and responses\<close>

text \<open>
  Modelled from the spec: the request and response structs \<open>LoginRequest\<close>,
  \<open>LoginResponse\<close> and \<open>TransferRequest\<close>, whose declarations are not among the
  sources. Their fields are the ones the handlers and the interface description name
  (\<open>{number, password}\<close>, \<open>{token, number}\<close>, \<open>{source, destination, amount}\<close>);
  the field names carry the struct as a prefix where two structs share a name.
\<close>

record LoginRequest =
  loginNumber :: int
  loginPassword :: string

record LoginResponse =
  respToken :: tokenString
  respNumber :: int

record TransferRequest =
  Source :: int
  Destination :: int
  Amount :: int

text \<open>
  What a handler reads of an \<open>http.Request\<close>: the method, the value of the
  \<open>Authorization\<close> header (\<open>None\<close> when the header is absent), the path variable
  \<open>id\<close> of the router, and the body, given by what \<open>json.NewDecoder(r.Body).Decode\<close>
  makes of it for the struct \<open>'b\<close> the handler decodes into: an error, or the struct.
\<close>

record 'b Request =
  HTTPMethod :: string
  Authorization :: "tokenString option"
  Vars_id :: string
  Body :: "error + 'b"

text \<open>\<open>r.Header.Get\<close> of an absent header is the empty string.\<close>

definition HeaderGet_Authorization :: "'b Request \<Rightarrow> tokenString" where
  "HeaderGet_Authorization r =
     (case Authorization r of None \<Rightarrow> NotThreeSegments | Some t \<Rightarrow> t)"

text \<open>The values the handlers encode into a response.\<close>

datatype body =
    APIError string
  | LoginResponseJSON LoginResponse
  | AccountJSON Account
  | AccountsJSON "Account list"
  | DeletedJSON int
  | TransferRequestJSON TransferRequest
  | PlainText string

text \<open>
  \<open>http.ResponseWriter\<close>: \<open>contentType\<close> is the header map's entry, \<open>status\<close> and
  \<open>sentContentType\<close> are the status line and the header as sent by the first
  \<open>WriteHeader\<close> (later calls change nothing), \<open>written\<close> is the body so far.
\<close>

record ResponseWriter =
  contentType :: "string option"
  status :: "nat option"
  sentContentType :: "string option"
  written :: "body list"

definition newResponseWriter :: ResponseWriter where
  "newResponseWriter =
     \<lparr>contentType = None, status = None, sentContentType = None, written = []\<rparr>"

definition WriteHeader :: "ResponseWriter \<Rightarrow> nat \<Rightarrow> ResponseWriter" where
  "WriteHeader w code =
     (case status w of
        None \<Rightarrow> w\<lparr>status := Some code, sentContentType := contentType w\<rparr>
      | Some _ \<Rightarrow> w)"

text \<open>\<open>WriteJSON\<close>; encoding to the connection succeeds, so the error is \<open>nil\<close>.\<close>

definition WriteJSON :: "ResponseWriter \<Rightarrow> nat \<Rightarrow> body \<Rightarrow> error option \<times> ResponseWriter" where
  "WriteJSON w status' v =
     (let w1 = w\<lparr>contentType := Some ''application/json''\<rparr>;
          w2 = WriteHeader w1 status'
      in (None, w2\<lparr>written := written w2 @ [v]\<rparr>))"

text \<open>\<open>http.Error\<close> of the standard library.\<close>

definition http_Error :: "ResponseWriter \<Rightarrow> string \<Rightarrow> nat \<Rightarrow> ResponseWriter" where
  "http_Error w msg code =
     (let w1 = w\<lparr>contentType := Some ''text/plain; charset=utf-8''\<rparr>;
          w2 = WriteHeader w1 code
      in w2\<lparr>written := written w2 @ [PlainText msg]\<rparr>)"

text \<open>
  A handler of type \<open>apiFunc\<close> gets the store behind the server, the response writer and
  the request, and returns its error with the writer and the store as it leaves them.
  \<open>makeHTTPHandlerFunc\<close> turns an error into a 400 response.
\<close>

type_synonym 'b apiFunc =
  "PostgreStore \<Rightarrow> ResponseWriter \<Rightarrow> 'b Request \<Rightarrow> error option \<times> ResponseWriter \<times> PostgreStore"

type_synonym 'b HandlerFunc =
  "PostgreStore \<Rightarrow> ResponseWriter \<Rightarrow> 'b Request \<Rightarrow> ResponseWriter \<times> PostgreStore"

definition StatusOK :: nat where "StatusOK = 200"
definition StatusBadRequest :: nat where "StatusBadRequest = 400"
definition StatusForbidden :: nat where "StatusForbidden = 403"
definition StatusMethodNotAllowed :: nat where "StatusMethodNotAllowed = 405"

definition makeHTTPHandlerFunc :: "'b apiFunc \<Rightarrow> 'b HandlerFunc" where
  "makeHTTPHandlerFunc f s w r =
     (case f s w r of
        (None, w', s') \<Rightarrow> (w', s')
      | (Some err, w', s') \<Rightarrow>
          (snd (WriteJSON w' StatusBadRequest (APIError (Error err))), s'))"

subsection \<open>Path variables\<close>

text \<open>
  \<open>strconv.Atoi\<close>: an optional sign, then one or more decimal digits, and the value
  must fit 64 bits; \<open>None\<close> is its error.
\<close>

definition digitOf :: "char \<Rightarrow> nat option" where
  "digitOf c =
     (let n = (of_char c :: nat) in if 48 \<le> n \<and> n \<le> 57 then Some (n - 48) else None)"

fun parseDigits :: "string \<Rightarrow> nat \<Rightarrow> nat option" where
  "parseDigits [] acc = Some acc"
| "parseDigits (c # cs) acc =
     (case digitOf c of None \<Rightarrow> None | Some d \<Rightarrow> parseDigits cs (10 * acc + d))"

definition Atoi :: "string \<Rightarrow> int option" where
  "Atoi str =
     (let neg = (take 1 str = ''-'');
          ds = (if take 1 str = ''-'' \<or> take 1 str = ''+'' then drop 1 str else str)
      in if ds = [] then None
         else
           (case parseDigits ds 0 of
              None \<Rightarrow> None
            | Some n \<Rightarrow>
                (let v = (if neg then - int n else int n) in
                 if - 9223372036854775808 \<le> v \<and> v \<le> 9223372036854775807
                 then Some v else None)))"

definition getID :: "'b Request \<Rightarrow> error + int" where
  "getID r =
     (let idStr = Vars_id r in
      case Atoi idStr of
        None \<Rightarrow> Inl (InvalidID idStr)
      | Some id' \<Rightarrow> Inr id')"

subsection \<open>Tokens of the server\<close>

text \<open>
  \<open>createJWT\<close>, with the value of the environment variable \<open>JWT_SECRET\<close> as a
  parameter. The claims are marshalled with their keys in order.
\<close>

definition createJWT :: "string \<Rightarrow> Account \<Rightarrow> error + tokenString" where
  "createJWT secret account =
     (let claims = [(''AccountNumber'', JNumber (Number account)),
                    (''ExpiresAt'', JNumber 1516239022)]
      in SignedString (SigningMethodHMAC SHA256) claims secret)"

text \<open>\<open>validateJWT\<close>, with the secret and the time of the check as parameters.\<close>

definition validateJWT :: "string \<Rightarrow> int \<Rightarrow> tokenString \<Rightarrow> Token option \<times> error option" where
  "validateJWT secret now tokenString =
     Parse tokenString
       (\<lambda>token. case Method token of
                  Some (SigningMethodHMAC h) \<Rightarrow> Inr secret
                | _ \<Rightarrow> Inl (UnexpectedSigningMethod (Header token ''alg'')))
       now"

subsection \<open>The authorization gate\<close>

text \<open>A call either returns or panics (here: a nil dereference or a failed type assertion).\<close>

datatype 'a outcome = Panic | Return 'a

definition PermissionDenied :: "ResponseWriter \<Rightarrow> ResponseWriter" where
  "PermissionDenied w = snd (WriteJSON w StatusForbidden (APIError ''Forbidden''))"

text \<open>
  \<open>withJWTAuth\<close>. The first condition is \<open>err != nil && !token.Valid\<close>: with an error,
  \<open>token.Valid\<close> is read, which panics on the \<open>nil\<close> token. The claim
  \<open>AccountNumber\<close> is asserted to be a \<open>float64\<close>, which panics on anything else.
\<close>

definition withJWTAuth ::
  "'b HandlerFunc \<Rightarrow> string \<Rightarrow> int \<Rightarrow> PostgreStore \<Rightarrow> ResponseWriter \<Rightarrow> 'b Request
     \<Rightarrow> (ResponseWriter \<times> PostgreStore) outcome" where
  "withJWTAuth handlerFunc secret now s w r =
     (let tokenString = HeaderGet_Authorization r;
          (token, err) = validateJWT secret now tokenString
      in case (case err of
                 None \<Rightarrow> Return False
               | Some _ \<Rightarrow> (case token of None \<Rightarrow> Panic | Some t \<Rightarrow> Return (\<not> Valid t))) of
           Panic \<Rightarrow> Panic
         | Return True \<Rightarrow> Return (PermissionDenied w, s)
         | Return False \<Rightarrow>
             (case getID r of
                Inl _ \<Rightarrow> Return (PermissionDenied w, s)
              | Inr userID \<Rightarrow>
                  (case GetAccountByID s userID of
                     Inl _ \<Rightarrow> Return (PermissionDenied w, s)
                   | Inr account \<Rightarrow>
                       (case token of
                          None \<Rightarrow> Panic
                        | Some t \<Rightarrow>
                            (case Claims t ''AccountNumber'' of
                               Some (Float64 f) \<Rightarrow>
                                 if Number account \<noteq> toInt64 f
                                 then Return (PermissionDenied w, s)
                                 else Return (handlerFunc s w r)
                             | _ \<Rightarrow> Panic)))))"

subsection \<open>The handlers\<close>

text \<open>
  Modelled from the spec: the method \<open>ValidatePassword\<close> of \<open>Account\<close>, whose source
  is not among the files. It is true exactly when the supplied password matches the
  stored, hashed credential. The comparison of a stored hash with a password (salted and
  one-way in the program) is the parameter \<open>matches\<close>.
\<close>

definition ValidatePassword :: "(string \<Rightarrow> string \<Rightarrow> bool) \<Rightarrow> Account \<Rightarrow> string \<Rightarrow> bool" where
  "ValidatePassword matches account pw = matches (EncryptedPassword account) pw"

text \<open>\<open>handleLogin\<close>, statement by statement.\<close>

definition handleLogin ::
  "(string \<Rightarrow> string \<Rightarrow> bool) \<Rightarrow> string \<Rightarrow> LoginRequest apiFunc" where
  "handleLogin matches secret s w r =
     (if HTTPMethod r \<noteq> ''POST'' then (Some (MethodNotAllowed (HTTPMethod r)), w, s)
      else
        (case Body r of
           Inl err \<Rightarrow> (Some err, w, s)
         | Inr req \<Rightarrow>
             (case GetAccountByNumber s (loginNumber req) of
                Inl err \<Rightarrow> (Some err, w, s)
              | Inr acc \<Rightarrow>
                  if ValidatePassword matches acc (loginPassword req)
                  then (Some NotAuthenticated, w, s)
                  else
                    (case createJWT secret acc of
                       Inl err \<Rightarrow> (Some err, w, s)
                     | Inr token \<Rightarrow>
                         (let resp = \<lparr>respToken = token, respNumber = Number acc\<rparr>;
                              (err, w') = WriteJSON w StatusOK (LoginResponseJSON resp)
                          in (err, w', s))))))"

definition handleGetAccount :: "'b apiFunc" where
  "handleGetAccount s w r =
     (case GetAccounts s of
        Inl err \<Rightarrow> (Some err, w, s)
      | Inr accs \<Rightarrow>
          (let (err, w') = WriteJSON w StatusOK (AccountsJSON accs) in (err, w', s)))"

definition handleDeleteAccount :: "'b apiFunc" where
  "handleDeleteAccount s w r =
     (case getID r of
        Inl err \<Rightarrow> (Some err, w, s)
      | Inr id' \<Rightarrow>
          (case DeleteAccount s id' of
             (Some err, s') \<Rightarrow> (Some err, w, s')
           | (None, s') \<Rightarrow>
               (let (err, w') = WriteJSON w StatusOK (DeletedJSON id') in (err, w', s'))))"

definition handleGetAccountByID :: "'b apiFunc" where
  "handleGetAccountByID s w r =
     (if HTTPMethod r = ''GET'' then
        (case getID r of
           Inl err \<Rightarrow> (Some err, w, s)
         | Inr id' \<Rightarrow>
             (case GetAccountByID s id' of
                Inl err \<Rightarrow> (Some err, w, s)
              | Inr account \<Rightarrow>
                  (let (err, w') = WriteJSON w StatusOK (AccountJSON account) in (err, w', s))))
      else if HTTPMethod r = ''DELETE'' then handleDeleteAccount s w r
      else (Some (MethodNotAllowed (HTTPMethod r)),
            http_Error w ''Method not allowed'' StatusMethodNotAllowed, s))"

text \<open>
  \<open>handleTransferAccount\<close>: decode the body into a \<open>TransferRequest\<close> and write it
  back with status 200. The handler makes no call to the store.
\<close>

definition handleTransferAccount :: "TransferRequest apiFunc" where
  "handleTransferAccount s w r =
     (case Body r of
        Inl err \<Rightarrow> (Some err, w, s)
      | Inr transferRequest \<Rightarrow>
          (let (err, w') = WriteJSON w StatusOK (TransferRequestJSON transferRequest)
           in (err, w', s)))"

text \<open>The routes of \<open>Run\<close>, with the secret, the time and the password check as parameters.\<close>

definition route_login :: "(string \<Rightarrow> string \<Rightarrow> bool) \<Rightarrow> string \<Rightarrow> LoginRequest HandlerFunc" where
  "route_login matches secret = makeHTTPHandlerFunc (handleLogin matches secret)"

definition route_account_id ::
  "string \<Rightarrow> int \<Rightarrow> PostgreStore \<Rightarrow> ResponseWriter \<Rightarrow> 'b Request
     \<Rightarrow> (ResponseWriter \<times> PostgreStore) outcome" where
  "route_account_id secret now = withJWTAuth (makeHTTPHandlerFunc handleGetAccountByID) secret now"

definition route_transfer :: "TransferRequest HandlerFunc" where
  "route_transfer = makeHTTPHandlerFunc handleTransferAccount"

subsection \<open>Notions the statements use\<close>

text \<open>The balance of the account a number resolves to, \<open>None\<close> when it resolves to none.\<close>

definition BalanceOf :: "PostgreStore \<Rightarrow> int \<Rightarrow> int option" where
  "BalanceOf s number =
     (case GetAccountByNumber s number of Inl _ \<Rightarrow> None | Inr a \<Rightarrow> Some (Balance a))"

text \<open>The response a single \<open>WriteJSON\<close> leaves on a fresh writer.\<close>

definition jsonResponse :: "nat \<Rightarrow> body \<Rightarrow> ResponseWriter" where
  "jsonResponse code v = \<lparr>contentType = Some ''application/json'', status = Some code,
     sentContentType = Some ''application/json'', written = [v]\<rparr>"

text \<open>The header and the claims of the token \<open>createJWT\<close> signs, and the token itself.\<close>

definition issuedHeader :: object where
  "issuedHeader = [(''alg'', JString ''HS256''), (''typ'', JString ''JWT'')]"

definition issuedClaims :: "Account \<Rightarrow> object" where
  "issuedClaims account =
     [(''AccountNumber'', JNumber (Number account)), (''ExpiresAt'', JNumber 1516239022)]"

definition issued :: "string \<Rightarrow> Account \<Rightarrow> tokenString" where
  "issued secret account =
     Compact (Seg issuedHeader) (Seg (issuedClaims account))
       (Seg (HMACSum SHA256 secret issuedHeader (issuedClaims account)))"

text \<open>
  A token string names an HMAC method when its header decodes and its \<open>alg\<close> is a
  string the library maps to a method of type \<open>SigningMethodHMAC\<close>.
\<close>

definition usesHMAC :: "tokenString \<Rightarrow> bool" where
  "usesHMAC tokenString =
     (case tokenString of
        Compact (Seg header) _ _ \<Rightarrow>
          (case Unmarshal header ''alg'' of
             Some (Str alg) \<Rightarrow>
               (case GetSigningMethod alg of Some (SigningMethodHMAC _) \<Rightarrow> True | _ \<Rightarrow> False)
           | _ \<Rightarrow> False)
      | _ \<Rightarrow> False)"

subsection \<open>Sample data\<close>

text \<open>Two accounts, their rows, and the store that holds the rows.\<close>

definition alice :: Account where
  "alice = \<lparr>ID = 1, FirstName = ''Alice'', LastName = ''A'', Number = 1001,
     EncryptedPassword = ''bcrypt(wonderland)'', Balance = 100, CreatedAt = 1700000000\<rparr>"

definition bob :: Account where
  "bob = \<lparr>ID = 2, FirstName = ''Bob'', LastName = ''B'', Number = 1002,
     EncryptedPassword = ''bcrypt(builder)'', Balance = 0, CreatedAt = 1700000001\<rparr>"

definition aliceRow :: Row where
  "aliceRow = \<lparr>col_id = 1, col_first_name = ''Alice'', col_last_name = ''A'',
     col_number = 1001, col_encrypted_password = ''bcrypt(wonderland)'', col_balance = 100,
     col_created_at = 1700000000\<rparr>"

definition bobRow :: Row where
  "bobRow = \<lparr>col_id = 2, col_first_name = ''Bob'', col_last_name = ''B'',
     col_number = 1002, col_encrypted_password = ''bcrypt(builder)'', col_balance = 0,
     col_created_at = 1700000001\<rparr>"

definition bank :: PostgreStore where
  "bank = \<lparr>accounts = [aliceRow, bobRow], dbErr = None\<rparr>"

text \<open>
  A \<open>POST /transfer\<close> request whose body decodes to the given struct, and three such
  structs: a transfer the balance covers, a negative amount, an overdraft.
\<close>

definition transferPOST :: "TransferRequest \<Rightarrow> TransferRequest Request" where
  "transferPOST t = \<lparr>HTTPMethod = ''POST'', Authorization = None, Vars_id = [], Body = Inr t\<rparr>"

definition transfer50 :: TransferRequest where
  "transfer50 = \<lparr>Source = 1001, Destination = 1002, Amount = 50\<rparr>"

definition transferNegative :: TransferRequest where
  "transferNegative = \<lparr>Source = 1001, Destination = 1002, Amount = - 5\<rparr>"

definition transferOverdraft :: TransferRequest where
  "transferOverdraft = \<lparr>Source = 1001, Destination = 1002, Amount = 500\<rparr>"

text \<open>Tokens with the algorithm \<open>none\<close> and with an asymmetric algorithm.\<close>

definition noneToken :: tokenString where
  "noneToken =
     Compact (Seg [(''alg'', JString ''none''), (''typ'', JString ''JWT'')])
       (Seg (issuedClaims alice)) (Seg (OtherBytes 0))"

definition rsaToken :: tokenString where
  "rsaToken =
     Compact (Seg [(''alg'', JString ''RS256''), (''typ'', JString ''JWT'')])
       (Seg (issuedClaims alice)) (Seg (OtherBytes 1))"

text \<open>A request to \<open>/account/{id}\<close>, and a \<open>POST /login\<close> request with a decoded body.\<close>

definition accountRequest :: "string \<Rightarrow> tokenString option \<Rightarrow> string \<Rightarrow> unit Request" where
  "accountRequest method auth idStr =
     \<lparr>HTTPMethod = method, Authorization = auth, Vars_id = idStr, Body = Inr ()\<rparr>"

definition loginPOST :: "LoginRequest \<Rightarrow> LoginRequest Request" where
  "loginPOST req = \<lparr>HTTPMethod = ''POST'', Authorization = None, Vars_id = [], Body = Inr req\<rparr>"

text \<open>A stand-in for the hash comparison, for the sample accounts.\<close>

definition sampleMatches :: "string \<Rightarrow> string \<Rightarrow> bool" where
  "sampleMatches hash pw = (hash = ''bcrypt('' @ pw @ '')'')"

section \<open>Properties of the account store\<close>

lemma filter_removes_id:
  "filter (\<lambda>r. sint (col_id r) = id') (filter (\<lambda>r. sint (col_id r) \<noteq> id') xs) = []"
  by (induction xs) auto

lemma int4_sint: "int4 (sint (w :: 32 word))"
  using sint_ge [of w] sint_lt [of w] by (simp add: int4_def)

lemma scanIntoAccounts_int4: "scanIntoAccounts rows = Inr account \<Longrightarrow> int4 (Number account)"
  by (auto simp add: scanIntoAccounts_def int4_sint)

lemma GetAccountByID_int4: "GetAccountByID s id' = Inr account \<Longrightarrow> int4 (Number account)"
  by (auto simp add: GetAccountByID_def scanIntoAccounts_int4
      split: option.splits list.splits)

lemma scan_aliceRow: "scanIntoAccounts aliceRow = Inr alice"
  by (simp add: scanIntoAccounts_def aliceRow_def alice_def)

lemma scan_bobRow: "scanIntoAccounts bobRow = Inr bob"
  by (simp add: scanIntoAccounts_def bobRow_def bob_def)

lemma bank_id_alice: "GetAccountByID bank 1 = Inr alice"
  by (simp add: GetAccountByID_def bank_def scan_aliceRow) (simp add: aliceRow_def bobRow_def)

lemma bank_id_bob: "GetAccountByID bank 2 = Inr bob"
  by (simp add: GetAccountByID_def bank_def scan_bobRow) (simp add: aliceRow_def bobRow_def scan_bobRow)

text \<open>
  Claim C8. For every account ID, once \<open>DeleteAccount\<close> of that ID has succeeded (returned
  no error), \<open>GetAccountByID\<close> of the same ID on the resulting store fails with the
  not-found error \<open>account <id> not found\<close>.
\<close>

theorem delete_then_get_not_found:
  assumes "DeleteAccount s id' = (None, s')"
  shows "GetAccountByID s' id' = Inl (AccountNotFound id')"
proof (cases "dbErr s")
  case None
  with assms have s': "s' = s\<lparr>accounts := filter (\<lambda>r. sint (col_id r) \<noteq> id') (accounts s)\<rparr>"
    by (simp add: DeleteAccount_def)
  show ?thesis
    by (simp add: s' GetAccountByID_def None filter_removes_id)
next
  case (Some e)
  with assms show ?thesis
    by (simp add: DeleteAccount_def)
qed

theorem delete_then_get_not_found_witness:
  "DeleteAccount bank 1 = (None, bank\<lparr>accounts := [bobRow]\<rparr>)
   \<and> GetAccountByID bank 1 = Inr alice
   \<and> GetAccountByID (bank\<lparr>accounts := [bobRow]\<rparr>) 1 = Inl (AccountNotFound 1)"
proof -
  have d: "DeleteAccount bank 1 = (None, bank\<lparr>accounts := [bobRow]\<rparr>)"
    by (simp add: DeleteAccount_def bank_def aliceRow_def bobRow_def)
  have g: "GetAccountByID bank 1 = Inr alice"
    by (rule bank_id_alice)
  from d g delete_then_get_not_found [OF d] show ?thesis by simp
qed

section \<open>Properties of the transfer handler\<close>

lemma WriteJSON_new: "WriteJSON newResponseWriter code v = (None, jsonResponse code v)"
  by (simp add: WriteJSON_def WriteHeader_def newResponseWriter_def jsonResponse_def)

lemma WriteJSON_fst [simp]: "fst (WriteJSON w code v) = None"
  by (simp add: WriteJSON_def Let_def)

lemma handleTransferAccount_decoded:
  "Body r = Inr t \<Longrightarrow>
   handleTransferAccount s w r =
     (fst (WriteJSON w StatusOK (TransferRequestJSON t)),
      snd (WriteJSON w StatusOK (TransferRequestJSON t)), s)"
  by (simp add: handleTransferAccount_def case_prod_unfold)

text \<open>
  Claim C10. For every \<open>POST /transfer\<close> request whose body decodes, the transfer handler
  leaves the store as it was (every account, every balance) and answers 200 with the
  decoded request as the body.
\<close>

theorem transfer_echoes_and_keeps_store:
  assumes "Body r = Inr t"
  shows "route_transfer s newResponseWriter r = (jsonResponse 200 (TransferRequestJSON t), s)"
  using assms
  by (simp add: route_transfer_def makeHTTPHandlerFunc_def handleTransferAccount_decoded
      WriteJSON_new StatusOK_def)

text \<open>A transfer request at the sample bank: the body decodes, and the store is kept.\<close>

theorem transfer_echoes_and_keeps_store_witness:
  "Body (transferPOST transfer50) = Inr transfer50
   \<and> route_transfer bank newResponseWriter (transferPOST transfer50)
     = (jsonResponse 200 (TransferRequestJSON transfer50), bank)"
proof -
  have b: "Body (transferPOST transfer50) = Inr transfer50"
    by (simp add: transferPOST_def)
  from b transfer_echoes_and_keeps_store [OF b] show ?thesis by simp
qed

lemma bank_lookup_alice: "GetAccountByNumber bank 1001 = Inr alice"
  by (simp add: GetAccountByNumber_def bank_def scan_aliceRow) (simp add: aliceRow_def bobRow_def)

lemma bank_lookup_bob: "GetAccountByNumber bank 1002 = Inr bob"
  by (simp add: GetAccountByNumber_def bank_def scan_bobRow) (simp add: aliceRow_def bobRow_def scan_bobRow)

lemma bank_balances: "BalanceOf bank 1001 = Some 100" "BalanceOf bank 1002 = Some 0"
  by (simp_all add: BalanceOf_def bank_lookup_alice bank_lookup_bob) (simp_all add: alice_def bob_def)

lemma route_transfer_decoded:
  "Body r = Inr t \<Longrightarrow>
   route_transfer s w r = (snd (WriteJSON w StatusOK (TransferRequestJSON t)), s)"
  by (simp add: route_transfer_def makeHTTPHandlerFunc_def handleTransferAccount_decoded)

text \<open>
  Claim C2, amended. For every transfer request with a positive amount, distinct source
  and destination numbers that both resolve, and a source balance of at least the amount,
  the handler answers 200 and applies neither the debit nor the credit: afterwards the
  source and the destination resolve to their balances of before.
\<close>

theorem transfer_applies_no_debit_no_credit:
  assumes "Body r = Inr t"
    and "0 < Amount t"
    and "Source t \<noteq> Destination t"
    and "GetAccountByNumber s (Source t) = Inr a"
    and "GetAccountByNumber s (Destination t) = Inr b"
    and "Amount t \<le> Balance a"
  shows "status (fst (route_transfer s newResponseWriter r)) = Some 200
    \<and> BalanceOf (snd (route_transfer s newResponseWriter r)) (Source t) = Some (Balance a)
    \<and> BalanceOf (snd (route_transfer s newResponseWriter r)) (Destination t) = Some (Balance b)"
  using assms
  by (simp add: route_transfer_decoded WriteJSON_new StatusOK_def jsonResponse_def BalanceOf_def)

text \<open>A transfer the source balance covers, at the sample bank: nothing is moved.\<close>

theorem transfer_applies_no_debit_no_credit_witness:
  "Body (transferPOST transfer50) = Inr transfer50
   \<and> 0 < Amount transfer50
   \<and> Source transfer50 \<noteq> Destination transfer50
   \<and> GetAccountByNumber bank (Source transfer50) = Inr alice
   \<and> GetAccountByNumber bank (Destination transfer50) = Inr bob
   \<and> Amount transfer50 \<le> Balance alice
   \<and> status (fst (route_transfer bank newResponseWriter (transferPOST transfer50))) = Some 200
   \<and> BalanceOf (snd (route_transfer bank newResponseWriter (transferPOST transfer50))) (Source transfer50)
       = Some (Balance alice)
   \<and> BalanceOf (snd (route_transfer bank newResponseWriter (transferPOST transfer50))) (Destination transfer50)
       = Some (Balance bob)"
proof -
  have h1: "Body (transferPOST transfer50) = Inr transfer50"
    by (simp add: transferPOST_def)
  have h2: "0 < Amount transfer50"
    by (simp add: transfer50_def)
  have h3: "Source transfer50 \<noteq> Destination transfer50"
    by (simp add: transfer50_def)
  have h4: "GetAccountByNumber bank (Source transfer50) = Inr alice"
    by (simp add: transfer50_def bank_lookup_alice)
  have h5: "GetAccountByNumber bank (Destination transfer50) = Inr bob"
    by (simp add: transfer50_def bank_lookup_bob)
  have h6: "Amount transfer50 \<le> Balance alice"
    by (simp add: transfer50_def alice_def)
  from transfer_applies_no_debit_no_credit [OF h1 h2 h3 h4 h5 h6] h1 h2 h3 h4 h5 h6
  show ?thesis by simp
qed

text \<open>
  Claim C2 as stated fails: a transfer of 50 from account 1001 (balance 100) to account
  1002 (balance 0) is answered 200, and afterwards the source balance is not 100 - 50 and
  the destination balance is not 0 + 50.
\<close>

theorem transfer_moves_no_money_counterexample:
  "Body (transferPOST transfer50) = Inr transfer50
   \<and> 0 < Amount transfer50
   \<and> Source transfer50 \<noteq> Destination transfer50
   \<and> BalanceOf bank (Source transfer50) = Some 100
   \<and> BalanceOf bank (Destination transfer50) = Some 0
   \<and> Amount transfer50 \<le> 100
   \<and> status (fst (route_transfer bank newResponseWriter (transferPOST transfer50))) = Some 200
   \<and> BalanceOf (snd (route_transfer bank newResponseWriter (transferPOST transfer50))) (Source transfer50)
       \<noteq> Some (100 - Amount transfer50)
   \<and> BalanceOf (snd (route_transfer bank newResponseWriter (transferPOST transfer50))) (Destination transfer50)
       \<noteq> Some (0 + Amount transfer50)"
proof -
  have b: "Body (transferPOST transfer50) = Inr transfer50"
    by (simp add: transferPOST_def)
  have r: "route_transfer bank newResponseWriter (transferPOST transfer50)
      = (jsonResponse 200 (TransferRequestJSON transfer50), bank)"
    by (simp add: route_transfer_decoded [OF b] WriteJSON_new StatusOK_def)
  show ?thesis
    by (simp add: r b bank_balances jsonResponse_def) (simp add: transfer50_def bank_balances)
qed

text \<open>
  Claim C3, amended. For every transfer request whose amount is at most 0 or exceeds the
  source balance, the handler leaves the source and the destination balance unchanged; it
  returns no error and answers 200 with the request as the body.
\<close>

theorem rejected_transfer_reports_no_error:
  assumes "Body r = Inr t"
    and "Amount t \<le> 0 \<or> (BalanceOf s (Source t) = Some bal \<and> bal < Amount t)"
  shows "fst (handleTransferAccount s newResponseWriter r) = None
    \<and> status (fst (route_transfer s newResponseWriter r)) = Some 200
    \<and> written (fst (route_transfer s newResponseWriter r)) = [TransferRequestJSON t]
    \<and> BalanceOf (snd (route_transfer s newResponseWriter r)) (Source t) = BalanceOf s (Source t)
    \<and> BalanceOf (snd (route_transfer s newResponseWriter r)) (Destination t)
        = BalanceOf s (Destination t)"
  using assms(1)
  by (simp add: route_transfer_decoded handleTransferAccount_decoded WriteJSON_new StatusOK_def
      jsonResponse_def)

text \<open>An overdraft at the sample bank: no error, and nothing is moved.\<close>

theorem rejected_transfer_reports_no_error_witness:
  "Body (transferPOST transferOverdraft) = Inr transferOverdraft
   \<and> BalanceOf bank (Source transferOverdraft) = Some 100
   \<and> 100 < Amount transferOverdraft
   \<and> fst (handleTransferAccount bank newResponseWriter (transferPOST transferOverdraft)) = None
   \<and> status (fst (route_transfer bank newResponseWriter (transferPOST transferOverdraft))) = Some 200
   \<and> written (fst (route_transfer bank newResponseWriter (transferPOST transferOverdraft)))
       = [TransferRequestJSON transferOverdraft]
   \<and> BalanceOf (snd (route_transfer bank newResponseWriter (transferPOST transferOverdraft)))
       (Source transferOverdraft) = Some 100
   \<and> BalanceOf (snd (route_transfer bank newResponseWriter (transferPOST transferOverdraft)))
       (Destination transferOverdraft) = Some 0"
proof -
  have h1: "Body (transferPOST transferOverdraft) = Inr transferOverdraft"
    by (simp add: transferPOST_def)
  have h2: "BalanceOf bank (Source transferOverdraft) = Some 100"
    by (simp add: transferOverdraft_def bank_balances)
  have h3: "100 < Amount transferOverdraft"
    by (simp add: transferOverdraft_def)
  have h4: "BalanceOf bank (Destination transferOverdraft) = Some 0"
    by (simp add: transferOverdraft_def bank_balances)
  from h2 h3 have h: "Amount transferOverdraft \<le> 0
      \<or> (BalanceOf bank (Source transferOverdraft) = Some 100 \<and> 100 < Amount transferOverdraft)"
    by simp
  from rejected_transfer_reports_no_error [OF h1 h] h1 h2 h3 h4
  show ?thesis by simp
qed

text \<open>
  Claim C3 as stated fails: a transfer of the amount -5 returns no error and is answered
  200.
\<close>

theorem rejected_transfer_counterexample:
  "Body (transferPOST transferNegative) = Inr transferNegative
   \<and> Amount transferNegative \<le> 0
   \<and> fst (handleTransferAccount bank newResponseWriter (transferPOST transferNegative)) = None
   \<and> status (fst (route_transfer bank newResponseWriter (transferPOST transferNegative))) = Some 200
   \<and> written (fst (route_transfer bank newResponseWriter (transferPOST transferNegative)))
       = [TransferRequestJSON transferNegative]"
proof -
  have b: "Body (transferPOST transferNegative) = Inr transferNegative"
    by (simp add: transferPOST_def)
  have a: "Amount transferNegative \<le> 0"
    by (simp add: transferNegative_def)
  show ?thesis
    by (simp add: b a route_transfer_decoded [OF b] handleTransferAccount_decoded [OF b]
        WriteJSON_new StatusOK_def jsonResponse_def)
qed

section \<open>Properties of the token service\<close>

lemma bitLen_le: "n < 2 ^ k \<Longrightarrow> bitLen n \<le> k"
proof (induction k arbitrary: n)
  case 0
  then show ?case by (simp add: bitLen.simps)
next
  case (Suc k)
  show ?case
  proof (cases "n = 0")
    case True
    then show ?thesis by (simp add: bitLen.simps)
  next
    case False
    from Suc.prems have "n div 2 < 2 ^ k" by simp
    then have "bitLen (n div 2) \<le> k" by (rule Suc.IH)
    with False show ?thesis by (subst bitLen.simps) simp
  qed
qed

lemma float64_exact: "\<bar>n\<bar> < 9007199254740992 \<Longrightarrow> float64 n = n"
proof -
  assume "\<bar>n\<bar> < 9007199254740992"
  then have "nat \<bar>n\<bar> < 2 ^ 53" by simp
  then have "bitLen (nat \<bar>n\<bar>) \<le> 53" by (rule bitLen_le)
  then show ?thesis by (simp add: float64_def Let_def)
qed

lemma float64_int4: "int4 n \<Longrightarrow> float64 n = n"
  by (rule float64_exact) (auto simp add: int4_def)

lemma toInt64_int4: "int4 n \<Longrightarrow> toInt64 n = n"
  by (simp add: int4_def toInt64_def)

text \<open>
  Beyond 53 binary digits the rounding never comes back below \<open>2 ^ 53\<close>, so a claim that
  converts to a number of the table's range is that number exactly.
\<close>

lemma bitLen_ge: "0 < n \<Longrightarrow> 2 ^ (bitLen n - 1) \<le> n"
proof (induction n rule: less_induct)
  case (less n)
  show ?case
  proof (cases "n div 2 = 0")
    case True
    with less.prems have "n = 1" by (simp add: div_eq_0_iff) 
    then show ?thesis by (simp add: bitLen.simps)
  next
    case False
    then have pos: "0 < n div 2" by simp
    from less.prems have "n div 2 < n" by simp
    from less.IH [OF this pos] have ih: "2 ^ (bitLen (n div 2) - 1) \<le> n div 2" .
    from pos have b: "0 < bitLen (n div 2)" by (subst bitLen.simps) simp
    from less.prems have e: "bitLen n = Suc (bitLen (n div 2))" by (subst bitLen.simps) simp
    from b have "(2::nat) ^ (bitLen n - 1) = 2 * 2 ^ (bitLen (n div 2) - 1)"
      by (cases "bitLen (n div 2)") (simp_all add: e)
    also from ih have "\<dots> \<le> 2 * (n div 2)" by simp
    also have "\<dots> \<le> n" by simp
    finally show ?thesis .
  qed
qed

lemma float64_large:
  assumes "53 < bitLen (nat \<bar>n\<bar>)"
  shows "9007199254740992 \<le> \<bar>float64 n\<bar>"
proof -
  define a where "a = nat \<bar>n\<bar>"
  define k where "k = bitLen a"
  define e where "e = k - 53"
  define q where "q = a div 2 ^ e"
  define r where "r = a mod 2 ^ e"
  define q' where "q' = (if 2 ^ (e - 1) < r \<or> (r = 2 ^ (e - 1) \<and> odd q) then q + 1 else q)"
  from assms have k: "53 < k" by (simp add: k_def a_def)
  then have e: "1 \<le> e" "k - 1 = 52 + e" by (simp_all add: e_def)
  from k have apos: "0 < a" by (auto simp add: k_def bitLen.simps intro: Nat.gr0I)
  then have "2 ^ (k - 1) \<le> a" unfolding k_def by (rule bitLen_ge)
  moreover have "(2::nat) ^ (k - 1) = 2 ^ 52 * 2 ^ e" by (simp only: e(2) power_add)
  ultimately have "(2::nat) ^ 52 * 2 ^ e \<le> a" by (simp only:)
  then have "(2::nat) ^ 52 \<le> q" unfolding q_def
    by (simp add: less_eq_div_iff_mult_less_eq)
  moreover have "q \<le> q'" by (simp add: q'_def)
  ultimately have "(2::nat) ^ 52 \<le> q'" by simp
  moreover from e(1) have "(2::nat) \<le> 2 ^ e"
    by (metis One_nat_def power_increasing power_one_right one_le_numeral)
  ultimately have "(2::nat) ^ 52 * 2 \<le> q' * 2 ^ e" by (rule mult_le_mono)
  then have "(9007199254740992::nat) \<le> q' * 2 ^ e" by simp
  then have "int 9007199254740992 \<le> int (q' * 2 ^ e)" by (simp only: of_nat_le_iff)
  then have big: "9007199254740992 \<le> int (q' * 2 ^ e)" by simp
  from apos have n0: "n \<noteq> 0" by (auto simp add: a_def)
  from k have "float64 n = sgn n * int (q' * 2 ^ e)"
    by (simp add: float64_def Let_def a_def [symmetric] k_def [symmetric] e_def [symmetric]
        q_def [symmetric] r_def [symmetric] q'_def)
  with big n0 show ?thesis
    by (simp add: abs_mult abs_sgn_eq)
qed

lemma toInt64_float64_int4:
  assumes "int4 b" and "toInt64 (float64 a) = b"
  shows "a = b"
proof (cases "bitLen (nat \<bar>a\<bar>) \<le> 53")
  case True
  then have "float64 a = a" by (simp add: float64_def Let_def)
  with assms show ?thesis
    by (auto simp add: toInt64_def int4_def split: if_splits)
next
  case False
  then have "9007199254740992 \<le> \<bar>float64 a\<bar>" by (simp add: float64_large)
  with assms show ?thesis
    by (auto simp add: toInt64_def int4_def split: if_splits)
qed

lemma createJWT_eq:
  "createJWT secret account =
     Inr (Compact (Seg issuedHeader) (Seg (issuedClaims account))
            (Seg (HMACSum SHA256 secret issuedHeader (issuedClaims account))))"
  by (simp add: createJWT_def SignedString_def issuedHeader_def issuedClaims_def Let_def)

lemma issued_header_alg: "Unmarshal issuedHeader ''alg'' = Some (Str ''HS256'')"
  by (simp add: Unmarshal_def issuedHeader_def)

lemma issued_claims_exp: "Unmarshal (issuedClaims account) ''exp'' = None"
  by (simp add: Unmarshal_def issuedClaims_def)

lemma issued_claims_nbf: "Unmarshal (issuedClaims account) ''nbf'' = None"
  by (simp add: Unmarshal_def issuedClaims_def)

lemma issued_claims_number:
  "Unmarshal (issuedClaims account) ''AccountNumber'' = Some (Float64 (float64 (Number account)))"
  by (simp add: Unmarshal_def issuedClaims_def)

lemma validate_issued:
  "validateJWT secret now
     (Compact (Seg issuedHeader) (Seg (issuedClaims account))
        (Seg (HMACSum SHA256 secret issuedHeader (issuedClaims account))))
   = (Some \<lparr>Method = Some (SigningMethodHMAC SHA256), Header = Unmarshal issuedHeader,
        Claims = Unmarshal (issuedClaims account),
        Signature = Some (HMACSum SHA256 secret issuedHeader (issuedClaims account)),
        Valid = True\<rparr>, None)"
  by (simp add: validateJWT_def ParseUnverified_def newToken_def issued_header_alg
      GetSigningMethod_def Validate_def verifyExpiresAt_def verifyNotBefore_def
      issued_claims_exp issued_claims_nbf)

lemma createJWT_issued: "createJWT secret account = Inr (issued secret account)"
  by (simp add: createJWT_eq issued_def)

lemma validate_issued':
  "validateJWT secret now (issued secret account)
   = (Some \<lparr>Method = Some (SigningMethodHMAC SHA256), Header = Unmarshal issuedHeader,
        Claims = Unmarshal (issuedClaims account),
        Signature = Some (HMACSum SHA256 secret issuedHeader (issuedClaims account)),
        Valid = True\<rparr>, None)"
  by (simp add: issued_def validate_issued)

text \<open>
  The validator does enforce the registered claim: a token signed under the secret whose
  \<open>exp\<close> is a past instant is refused.
\<close>

lemma past_exp_is_refused:
  assumes "0 < exp" and "exp < 9007199254740992" and "exp \<le> now"
  shows "validateJWT secret now
           (Compact (Seg issuedHeader) (Seg [(''exp'', JNumber exp)])
              (Seg (HMACSum SHA256 secret issuedHeader [(''exp'', JNumber exp)])))
         = (Some \<lparr>Method = Some (SigningMethodHMAC SHA256), Header = Unmarshal issuedHeader,
              Claims = Unmarshal [(''exp'', JNumber exp)],
              Signature = Some (HMACSum SHA256 secret issuedHeader [(''exp'', JNumber exp)]),
              Valid = False\<rparr>, Some ErrTokenInvalidClaims)"
proof -
  from assms have "float64 exp = exp"
    by (intro float64_exact) simp
  then have e: "Unmarshal [(''exp'', JNumber exp)] ''exp'' = Some (Float64 exp)"
    by (simp add: Unmarshal_def)
  with assms show ?thesis
    by (simp add: validateJWT_def ParseUnverified_def newToken_def issued_header_alg
        GetSigningMethod_def Validate_def verifyExpiresAt_def)
qed

text \<open>
  Claim C4 fails on the code. The token \<open>createJWT\<close> issues carries its expiry instant,
  1516239022, under the key \<open>ExpiresAt\<close>; the validator reads the key \<open>exp\<close> only.
  So at every time after that instant, \<open>validateJWT\<close> under the same secret returns the
  token, marked valid, and no error.
\<close>

theorem issued_token_outlives_its_expiry:
  assumes "createJWT secret account = Inr tokenString"
    and "1516239022 < now"
  shows "\<exists>token. validateJWT secret now tokenString = (Some token, None) \<and> Valid token"
proof -
  from assms(1) have "tokenString = issued secret account"
    by (simp add: createJWT_issued)
  then show ?thesis
    by (simp add: validate_issued')
qed

text \<open>The token of the sample account, checked in November 2026.\<close>

theorem issued_token_outlives_its_expiry_witness:
  "createJWT ''s3cret'' alice = Inr (issued ''s3cret'' alice)
   \<and> (1516239022 :: int) < 1793491200
   \<and> (\<exists>token. validateJWT ''s3cret'' 1793491200 (issued ''s3cret'' alice) = (Some token, None)
         \<and> Valid token)"
proof -
  have c: "createJWT ''s3cret'' alice = Inr (issued ''s3cret'' alice)"
    by (rule createJWT_issued)
  have t: "(1516239022 :: int) < 1793491200"
    by simp
  from issued_token_outlives_its_expiry [OF c t] c t show ?thesis by simp
qed

text \<open>
  Claim C5. For every account, that is for the account scanned from any row of the table,
  the token \<open>createJWT\<close> issues for it validates under the same secret, at any time of
  the check and so also before the expiry: \<open>validateJWT\<close> returns no error and a valid
  token whose claim \<open>AccountNumber\<close> is the account's number, which the conversion to
  \<open>int64\<close> keeps.
\<close>

theorem issued_token_round_trip:
  assumes "scanIntoAccounts rows = Inr account"
    and "createJWT secret account = Inr tokenString"
  shows "\<exists>token. validateJWT secret now tokenString = (Some token, None) \<and> Valid token
           \<and> Claims token ''AccountNumber'' = Some (Float64 (Number account))
           \<and> toInt64 (Number account) = Number account"
proof -
  from assms(1) have n: "int4 (Number account)"
    by (rule scanIntoAccounts_int4)
  from assms(2) have "tokenString = issued secret account"
    by (simp add: createJWT_issued)
  with n show ?thesis
    by (simp add: validate_issued' issued_claims_number float64_int4 toInt64_int4)
qed

text \<open>The round trip for the sample account, before the expiry instant.\<close>

theorem issued_token_round_trip_witness:
  "scanIntoAccounts aliceRow = Inr alice
   \<and> createJWT ''s3cret'' alice = Inr (issued ''s3cret'' alice)
   \<and> (\<exists>token. validateJWT ''s3cret'' 1500000000 (issued ''s3cret'' alice) = (Some token, None)
         \<and> Valid token \<and> Claims token ''AccountNumber'' = Some (Float64 1001))"
proof -
  have n: "scanIntoAccounts aliceRow = Inr alice"
    by (rule scan_aliceRow)
  have c: "createJWT ''s3cret'' alice = Inr (issued ''s3cret'' alice)"
    by (rule createJWT_issued)
  have a: "Number alice = 1001"
    by (simp add: alice_def)
  from issued_token_round_trip [OF n c, of 1500000000] n c a show ?thesis by auto
qed

lemma Parse_no_method:
  "snd (ParseUnverified p0 p1) = Some e \<Longrightarrow>
   snd (Parse (Compact p0 p1 p2) keyFunc now) = Some e"
  by (cases "ParseUnverified p0 p1") simp

lemma ParseUnverified_ok:
  assumes "snd (ParseUnverified p0 p1) = None"
  shows "\<exists>header claims alg m. p0 = Seg header \<and> p1 = Seg claims
           \<and> Unmarshal header ''alg'' = Some (Str alg) \<and> GetSigningMethod alg = Some m
           \<and> ParseUnverified p0 p1 =
               (newToken\<lparr>Header := Unmarshal header, Claims := Unmarshal claims,
                  Method := Some m\<rparr>, None)"
  using assms
  by (auto simp add: ParseUnverified_def Let_def
      split: segment.splits option.splits any.splits)

text \<open>
  Claim C9. For every token string that does not name an HMAC signing method (the method
  \<open>none\<close>, the asymmetric methods, an unknown or missing \<open>alg\<close>, an undecodable
  header, a string without three parts), \<open>validateJWT\<close> returns an error.
\<close>

theorem non_hmac_token_fails:
  assumes "\<not> usesHMAC tokenString"
  shows "\<exists>e. snd (validateJWT secret now tokenString) = Some e"
proof (cases tokenString)
  case NotThreeSegments
  then show ?thesis by (simp add: validateJWT_def)
next
  case (Compact p0 p1 p2)
  show ?thesis
  proof (cases "snd (ParseUnverified p0 p1)")
    case (Some e)
    then show ?thesis
      by (simp add: validateJWT_def Compact Parse_no_method del: Parse.simps)
  next
    case None
    then obtain header claims alg m where p: "p0 = Seg header" "p1 = Seg claims"
      and a: "Unmarshal header ''alg'' = Some (Str alg)" "GetSigningMethod alg = Some m"
      and u: "ParseUnverified p0 p1 =
               (newToken\<lparr>Header := Unmarshal header, Claims := Unmarshal claims,
                  Method := Some m\<rparr>, None)"
      using ParseUnverified_ok by blast
    from assms Compact p a have m: "\<And>h. m \<noteq> SigningMethodHMAC h"
      by (auto simp add: usesHMAC_def)
    from u p have u': "ParseUnverified (Seg header) (Seg claims) =
               (newToken\<lparr>Header := Unmarshal header, Claims := Unmarshal claims,
                  Method := Some m\<rparr>, None)"
      by simp
    from m show ?thesis
      by (cases p2; cases m) (auto simp add: validateJWT_def Compact u' p)
  qed
qed

text \<open>The tokens with \<open>none\<close> and with \<open>RS256\<close> are refused.\<close>

theorem non_hmac_token_fails_witness:
  "\<not> usesHMAC noneToken \<and> \<not> usesHMAC rsaToken
   \<and> snd (validateJWT ''s3cret'' 1500000000 noneToken) = Some ErrTokenUnverifiable
   \<and> (\<exists>e. snd (validateJWT ''s3cret'' 1500000000 rsaToken) = Some e)"
proof -
  have n: "\<not> usesHMAC noneToken"
    by (simp add: usesHMAC_def noneToken_def Unmarshal_def GetSigningMethod_def)
  have r: "\<not> usesHMAC rsaToken"
    by (simp add: usesHMAC_def rsaToken_def Unmarshal_def GetSigningMethod_def)
  have v: "snd (validateJWT ''s3cret'' 1500000000 noneToken) = Some ErrTokenUnverifiable"
    by (simp add: validateJWT_def noneToken_def ParseUnverified_def newToken_def Unmarshal_def
        GetSigningMethod_def)
  from n r v non_hmac_token_fails [OF r, of "''s3cret''" 1500000000] show ?thesis by simp
qed

section \<open>Properties of the authorization gate\<close>

lemma PermissionDenied_new:
  "PermissionDenied newResponseWriter = jsonResponse 403 (APIError ''Forbidden'')"
  by (simp add: PermissionDenied_def WriteJSON_new StatusForbidden_def)

lemma Parse_error_not_valid:
  "Parse tokenString keyFunc now = (Some t, Some e) \<Longrightarrow> \<not> Valid t"
  by (cases tokenString)
    (auto simp add: ParseUnverified_def newToken_def Let_def
      split: segment.splits option.splits any.splits prod.splits sum.splits if_splits)

text \<open>
  Whenever the validation fails with a token in hand (a bad signature, a past \<open>exp\<close>, a
  method that is not HMAC, an undecodable part), the gate answers \<open>Forbidden\<close> and does not
  reach the handler.
\<close>

lemma gate_denies_failed_validation:
  assumes "validateJWT secret now (HeaderGet_Authorization r) = (Some t, Some e)"
  shows "withJWTAuth handlerFunc secret now s w r = Return (PermissionDenied w, s)"
proof -
  from assms have "\<not> Valid t"
    unfolding validateJWT_def by (rule Parse_error_not_valid)
  with assms show ?thesis
    by (simp add: withJWTAuth_def)
qed

text \<open>The gate has three outcomes: a panic, the \<open>Forbidden\<close> response, or the handler's run.\<close>

lemma gate_outcomes:
  "withJWTAuth handlerFunc secret now s w r = Panic
   \<or> withJWTAuth handlerFunc secret now s w r = Return (PermissionDenied w, s)
   \<or> withJWTAuth handlerFunc secret now s w r = Return (handlerFunc s w r)"
  by (simp add: withJWTAuth_def Let_def
      split: prod.splits option.splits outcome.splits sum.splits any.splits bool.splits)

text \<open>The token of an account opens the account's own resource.\<close>

lemma token_of_same_account_admitted:
  assumes "createJWT secret A = Inr tokenString"
    and "Authorization r = Some tokenString"
    and "getID r = Inr (ID A)"
    and "GetAccountByID s (ID A) = Inr A"
  shows "withJWTAuth handlerFunc secret now s w r = Return (handlerFunc s w r)"
proof -
  from assms(1) have t: "tokenString = issued secret A"
    by (simp add: createJWT_issued)
  from assms(4) have "int4 (Number A)"
    by (rule GetAccountByID_int4)
  then have f: "toInt64 (float64 (Number A)) = Number A"
    by (simp add: float64_int4 toInt64_int4)
  show ?thesis
    by (simp add: withJWTAuth_def HeaderGet_Authorization_def assms(2) t validate_issued'
        assms(3) assms(4) issued_claims_number f)
qed

text \<open>
  Claim C7 fails on the code. A request without an \<open>Authorization\<close> header makes
  \<open>validateJWT\<close> return the \<open>nil\<close> token with an error, and the gate's first
  condition reads \<open>token.Valid\<close>: the gate panics and writes no response, whatever the
  handler, the secret, the time, the store and the rest of the request are.
\<close>

theorem gate_panics_without_token:
  "withJWTAuth handlerFunc secret now s w (r\<lparr>Authorization := None\<rparr>) = Panic"
  by (simp add: withJWTAuth_def HeaderGet_Authorization_def validateJWT_def)

text \<open>
  Claim C6. For accounts A and B with distinct numbers, a request to the resource of B (its
  path id is the one the store resolves to B) that bears the token issued for A is
  answered by the gate with 403 and the body \<open>Forbidden\<close>; the store is unchanged, and
  the answer is the same for every wrapped handler: the handler is not invoked.
\<close>

theorem token_of_other_account_forbidden:
  assumes "Number A \<noteq> Number B"
    and "createJWT secret A = Inr tokenString"
    and "Authorization r = Some tokenString"
    and "getID r = Inr (ID B)"
    and "GetAccountByID s (ID B) = Inr B"
  shows "withJWTAuth handlerFunc secret now s newResponseWriter r
           = Return (jsonResponse 403 (APIError ''Forbidden''), s)"
proof -
  from assms(2) have t: "tokenString = issued secret A"
    by (simp add: createJWT_issued)
  from assms(5) have "int4 (Number B)"
    by (rule GetAccountByID_int4)
  with assms(1) have ne: "Number B \<noteq> toInt64 (float64 (Number A))"
    by (auto dest: toInt64_float64_int4)
  show ?thesis
    by (simp add: withJWTAuth_def HeaderGet_Authorization_def assms(3) t validate_issued'
        assms(4) assms(5) issued_claims_number ne PermissionDenied_new)
qed

text \<open>The first sample account's token on the second account's resource.\<close>

theorem token_of_other_account_forbidden_witness:
  "Number alice \<noteq> Number bob
   \<and> createJWT ''s3cret'' alice = Inr (issued ''s3cret'' alice)
   \<and> Authorization (accountRequest ''GET'' (Some (issued ''s3cret'' alice)) ''2'')
       = Some (issued ''s3cret'' alice)
   \<and> getID (accountRequest ''GET'' (Some (issued ''s3cret'' alice)) ''2'') = Inr (ID bob)
   \<and> GetAccountByID bank (ID bob) = Inr bob
   \<and> route_account_id ''s3cret'' 1500000000 bank newResponseWriter
         (accountRequest ''GET'' (Some (issued ''s3cret'' alice)) ''2'')
       = Return (jsonResponse 403 (APIError ''Forbidden''), bank)"
proof -
  have h3: "Number alice \<noteq> Number bob"
    by (simp add: alice_def bob_def)
  have h4: "createJWT ''s3cret'' alice = Inr (issued ''s3cret'' alice)"
    by (rule createJWT_issued)
  have h5: "Authorization (accountRequest ''GET'' (Some (issued ''s3cret'' alice)) ''2'')
       = Some (issued ''s3cret'' alice)"
    by (simp add: accountRequest_def)
  have h6: "getID (accountRequest ''GET'' (Some (issued ''s3cret'' alice)) ''2'') = Inr (ID bob)"
    by (simp add: getID_def accountRequest_def Atoi_def digitOf_def bob_def)
  have h7: "GetAccountByID bank (ID bob) = Inr bob"
    by (simp add: bank_id_bob bob_def)
  from token_of_other_account_forbidden [OF h3 h4 h5 h6 h7] h3 h4 h5 h6 h7
  show ?thesis by (simp add: route_account_id_def)
qed

section \<open>Properties of the login handler\<close>

text \<open>
  Claim C1 fails on the code. For every \<open>POST /login\<close> request whose number resolves to
  an account and whose password matches the account's credential, the handler answers 400
  with the error \<open>not authenticated\<close>: the condition on \<open>ValidatePassword\<close> is
  inverted.
\<close>

theorem login_rejects_matching_password:
  assumes "HTTPMethod r = ''POST''"
    and "Body r = Inr req"
    and "GetAccountByNumber s (loginNumber req) = Inr acc"
    and "ValidatePassword matches acc (loginPassword req)"
  shows "route_login matches secret s newResponseWriter r
           = (jsonResponse 400 (APIError ''not authenticated''), s)"
  using assms
  by (simp add: route_login_def makeHTTPHandlerFunc_def handleLogin_def WriteJSON_new
      StatusBadRequest_def)

text \<open>The other half of the inversion: a password that does not match is given a token.\<close>

lemma login_admits_wrong_password:
  assumes "HTTPMethod r = ''POST''"
    and "Body r = Inr req"
    and "GetAccountByNumber s (loginNumber req) = Inr acc"
    and "\<not> ValidatePassword matches acc (loginPassword req)"
  shows "route_login matches secret s newResponseWriter r
           = (jsonResponse 200
                (LoginResponseJSON \<lparr>respToken = issued secret acc, respNumber = Number acc\<rparr>), s)"
  using assms
  by (simp add: route_login_def makeHTTPHandlerFunc_def handleLogin_def WriteJSON_new
      StatusOK_def createJWT_issued)

text \<open>The sample account logging in with its own password.\<close>

theorem login_rejects_matching_password_witness:
  "HTTPMethod (loginPOST \<lparr>loginNumber = 1001, loginPassword = ''wonderland''\<rparr>) = ''POST''
   \<and> Body (loginPOST \<lparr>loginNumber = 1001, loginPassword = ''wonderland''\<rparr>)
       = Inr \<lparr>loginNumber = 1001, loginPassword = ''wonderland''\<rparr>
   \<and> GetAccountByNumber bank 1001 = Inr alice
   \<and> ValidatePassword sampleMatches alice ''wonderland''
   \<and> route_login sampleMatches ''s3cret'' bank newResponseWriter
         (loginPOST \<lparr>loginNumber = 1001, loginPassword = ''wonderland''\<rparr>)
       = (jsonResponse 400 (APIError ''not authenticated''), bank)"
proof -
  let ?req = "\<lparr>loginNumber = 1001, loginPassword = ''wonderland''\<rparr>"
  have h1: "HTTPMethod (loginPOST ?req) = ''POST''"
    by (simp add: loginPOST_def)
  have h2: "Body (loginPOST ?req) = Inr ?req"
    by (simp add: loginPOST_def)
  have h3: "GetAccountByNumber bank (loginNumber ?req) = Inr alice"
    by (simp add: bank_lookup_alice)
  have h4: "ValidatePassword sampleMatches alice (loginPassword ?req)"
    by (simp add: ValidatePassword_def sampleMatches_def alice_def)
  from login_rejects_matching_password [OF h1 h2 h3 h4] h1 h2 h3 h4
  show ?thesis by simp
qed

end
